theory Spec2Isabelle
  imports Main "HOL-Library.Word" "HOL-Library.Multiset" "HOL-Library.AList"
begin

section \<open>Port-forward extender of the resource view (internal/view/pf_extender.go)\<close>

text \<open>
  The file under verification is the port-forward extension of a resource view: the key
  handler \<open>portFwdCmd\<close>, the start callback \<open>startFwdCB\<close>, the background task
  \<open>runForward\<close> and the two dialog builders.  The embedding passes the application state
  explicitly.  Everything the Go code obtains from another package (the selected table row,
  the accessor of the resource kind, the cluster, the local sockets, the transport) is a
  field of the record \<open>env\<close>, so that every theorem holds for all behaviours of those
  collaborators.
\<close>

subsection \<open>Values\<close>

text \<open>A Go \<open>error\<close> value, identified by its message.\<close>

datatype error = Error string

text \<open>Run-time panics of the two unchecked operations of the file.\<close>

datatype panic =
    TypeAssertion      \<comment> \<open>\<open>o.(*unstructured.Unstructured)\<close> on another dynamic type\<close>
  | IndexOutOfRange    \<comment> \<open>\<open>pf.Ports()[0]\<close> on an empty slice\<close>

text \<open>
  \<open>client.PortTunnel\<close>: the file reads \<open>Address\<close> and \<open>LocalPort\<close>; the remote
  container port travels with them to \<open>Start\<close>.
\<close>

record PortTunnel =
  Address :: string
  LocalPort :: string
  RemotePort :: string

text \<open>\<open>v1.ContainerPort\<close>, \<open>v1.Container\<close> and \<open>v1.Pod\<close>, reduced to the fields read.\<close>

record ContainerPort =
  Name :: string
  ContainerPort :: "32 word"
  Protocol :: string

record Container =
  co_Name :: string
  co_Ports :: "ContainerPort list"

record Pod =
  Spec_Containers :: "Container list"

definition ProtocolTCP :: string where
  "ProtocolTCP = ''TCP''"

text \<open>
  What \<open>Factory.Get\<close> hands back: a \<open>runtime.Object\<close>.  For an unstructured object the
  outcome of \<open>FromUnstructured\<close> is a function of its content, so the content is stored as
  that outcome.
\<close>

datatype runtime_object =
    Unstructured "error + Pod"
  | OtherObject

text \<open>
  A \<open>dao.Accessor\<close>; it carries \<open>Pod\<close> exactly when its dynamic type implements
  \<open>dao.Controller\<close>.
\<close>

datatype accessor = Accessor "(string \<Rightarrow> error + string) option"

text \<open>
  A \<open>watch.Forwarder\<close> object.  The registry and the background task hold the same pointer,
  so the objects live in a heap indexed by address.
\<close>

record Forwarder =
  pf_path :: string
  pf_container :: string
  pf_ports :: "string list"
  pf_active :: bool

type_synonym ref = nat

text \<open>The two function literals that \<open>runForward\<close> passes to \<open>QueueUpdateDraw\<close>.\<close>

datatype closure =
    Activated ref    \<comment> \<open>lines 93-96: flash "activated", dismiss the dialog\<close>
  | Retire ref       \<comment> \<open>lines 104-107: delete from the registry, clear the flag\<close>

text \<open>Callbacks stored in a dialog.\<close>

datatype callback =
    StartFwdCB            \<comment> \<open>\<open>startFwdCB\<close>, the \<open>PortForwardCB\<close> of the selection dialog\<close>
  | DeleteFwdOK string    \<comment> \<open>the confirmation closure of \<open>showDeleteFwdDialog\<close>\<close>

datatype dialog =
    PortForwardDialog string "string list" callback   \<comment> \<open>\<open>ShowPortForwards\<close>\<close>
  | Modal string callback                              \<comment> \<open>\<open>showModal\<close>\<close>

datatype flash_msg = Info string | Err error

text \<open>A goroutine started by \<open>go runForward(v, pf, fwd)\<close>.\<close>

datatype task = RunForward ref nat

datatype thread = UIThread | Background

text \<open>
  The log records, in program order and with the executing thread, every call that leaves
  the view and every mutation of state the user interface shows.
\<close>

datatype action =
    Call_AccessorFor string
  | Call_Pod string
  | Call_Get string
  | Call_Listen string
  | Call_Close string
  | Call_Start ref string string
  | Call_ForwardPorts nat
  | Call_Delete string
  | Registry_Add ref
  | Registry_Delete string
  | Set_Active ref bool
  | Flash flash_msg
  | Show dialog
  | Dismiss
  | Refresh
  | Queue closure
  | Go task

record app =
  heap :: "ref \<Rightarrow> Forwarder"
  next_ref :: ref
  forwarders :: "(string \<times> ref) list"    \<comment> \<open>the registry of the factory\<close>
  flash :: "flash_msg list"
  pages :: "dialog list"
  updates :: "closure list"                \<comment> \<open>closures queued for the UI loop\<close>
  goroutines :: "task list"
  thread :: thread
  log :: "(thread \<times> action) list"

text \<open>
  The collaborators.  The answer of each is a function of the arguments of the call, for
  the length of one run of a function of the file.  \<open>GVR\<close> is the resource kind of the
  view as its \<open>String\<close> method renders it.  \<open>net_Listen\<close> and \<open>server_Close\<close> give the
  error of the call, if any, for an address \<open>host:port\<close>.  \<open>pf_Start\<close> gives the error
  of \<open>Start\<close> or the handle of the transport, on which \<open>ForwardPorts\<close> blocks and then
  gives its error, if any.  \<open>strconv_Quote\<close> is what \<open>strconv.Quote\<close> answers for
  a string that is not plain ASCII.  \<open>map_range\<close> is the order in which the Go runtime happens
  to visit a map in a \<open>range\<close> loop.
\<close>

record env =
  GetSelectedItem :: string
  GVR :: string
  AccessorFor :: "string \<Rightarrow> error + accessor"
  net_Listen :: "string \<Rightarrow> error option"
  server_Close :: "string \<Rightarrow> error option"
  factory_Get :: "string \<Rightarrow> error + runtime_object"
  pf_Start :: "string \<Rightarrow> string \<Rightarrow> PortTunnel list \<Rightarrow> error + nat"
  pf_Delete :: "string \<Rightarrow> error option"
  ForwardPorts :: "nat \<Rightarrow> error option"
  strconv_Quote :: "string \<Rightarrow> string"
  map_range :: "(string \<times> ContainerPort list) list \<Rightarrow> (string \<times> ContainerPort list) list"

subsection \<open>Primitives of the application\<close>

definition emit :: "action \<Rightarrow> app \<Rightarrow> app" where
  "emit a st = st\<lparr>log := log st @ [(thread st, a)]\<rparr>"

definition Flash_Err :: "error \<Rightarrow> app \<Rightarrow> app" where
  "Flash_Err e st = emit (Flash (Err e)) (st\<lparr>flash := flash st @ [Err e]\<rparr>)"

definition Flash_Infof :: "string \<Rightarrow> app \<Rightarrow> app" where
  "Flash_Infof m st = emit (Flash (Info m)) (st\<lparr>flash := flash st @ [Info m]\<rparr>)"

definition QueueUpdateDraw :: "closure \<Rightarrow> app \<Rightarrow> app" where
  "QueueUpdateDraw c st = emit (Queue c) (st\<lparr>updates := updates st @ [c]\<rparr>)"

definition SetActive :: "ref \<Rightarrow> bool \<Rightarrow> app \<Rightarrow> app" where
  "SetActive pf b st =
     emit (Set_Active pf b) (st\<lparr>heap := (heap st)(pf := (heap st pf)\<lparr>pf_active := b\<rparr>)\<rparr>)"

definition is_PortForwardDialog :: "dialog \<Rightarrow> bool" where
  "is_PortForwardDialog d = (case d of PortForwardDialog _ _ _ \<Rightarrow> True | Modal _ _ \<Rightarrow> False)"

definition ShowPortForwards :: "string \<Rightarrow> string list \<Rightarrow> callback \<Rightarrow> app \<Rightarrow> app" where
  "ShowPortForwards path ports cb st =
     emit (Show (PortForwardDialog path ports cb))
       (st\<lparr>pages := pages st @ [PortForwardDialog path ports cb]\<rparr>)"

definition showModal :: "string \<Rightarrow> callback \<Rightarrow> app \<Rightarrow> app" where
  "showModal msg ok st = emit (Show (Modal msg ok)) (st\<lparr>pages := pages st @ [Modal msg ok]\<rparr>)"

text \<open>
  Modelled from the spec: \<open>DismissPortForwards\<close> is not among the sources; it is the
  \<open>Dismiss()\<close> operation of the dialog surface and takes the port-forward dialog off the
  pages.
\<close>

definition DismissPortForwards :: "app \<Rightarrow> app" where
  "DismissPortForwards st =
     emit Dismiss (st\<lparr>pages := filter (\<lambda>d. \<not> is_PortForwardDialog d) (pages st)\<rparr>)"

subsection \<open>The registry and the sessions\<close>

text \<open>
  Modelled from the spec: \<open>dao.PortForwardID\<close> is not among the sources; the session key is
  the pod path and the container name, written \<open>ns/web-0|app\<close>.
\<close>

definition PortForwardID :: "string \<Rightarrow> string \<Rightarrow> string" where
  "PortForwardID path co = path @ ''|'' @ co"

definition pf_FQN :: "app \<Rightarrow> ref \<Rightarrow> string" where
  "pf_FQN st pf = PortForwardID (pf_path (heap st pf)) (pf_container (heap st pf))"

text \<open>
  Modelled from the spec: the registry operations \<open>AddForwarder\<close>, \<open>DeleteForwarder\<close>,
  \<open>ForwarderFor\<close> and \<open>GetForwarders\<close> of the factory are not among the sources.  They are
  the operations Add, Delete, Lookup and AllForPod: Add inserts under the session key unless
  the key already has an entry, Delete removes the entry if there is one, Lookup returns the
  entry under a key, AllForPod returns every entry whose pod is the given one.
\<close>

definition AddForwarder :: "ref \<Rightarrow> app \<Rightarrow> app" where
  "AddForwarder pf st =
     emit (Registry_Add pf)
       (case map_of (forwarders st) (pf_FQN st pf) of
          Some _ \<Rightarrow> st
        | None \<Rightarrow> st\<lparr>forwarders := forwarders st @ [(pf_FQN st pf, pf)]\<rparr>)"

definition DeleteForwarder :: "string \<Rightarrow> app \<Rightarrow> app" where
  "DeleteForwarder k st =
     emit (Registry_Delete k) (st\<lparr>forwarders := AList.delete k (forwarders st)\<rparr>)"

definition ForwarderFor :: "app \<Rightarrow> string \<Rightarrow> ref option" where
  "ForwarderFor st k = map_of (forwarders st) k"

definition GetForwarders :: "app \<Rightarrow> string \<Rightarrow> ref list" where
  "GetForwarders st pod = filter (\<lambda>pf. pf_path (heap st pf) = pod) (map snd (forwarders st))"

text \<open>
  Modelled from the spec: \<open>dao.NewPortForwarder\<close> and \<open>Start\<close> are not among the sources.
  They construct the tunnel session: a fresh object with the active flag false, which a
  successful \<open>Start\<close> fills with the pod, the container and the port pairs; whether the
  cluster accepts the request is the collaborator's answer \<open>pf_Start\<close>.
\<close>

definition NewPortForwarder :: "app \<Rightarrow> ref \<times> app" where
  "NewPortForwarder st =
     (next_ref st,
      st\<lparr>heap := (heap st)(next_ref st :=
             \<lparr>pf_path = [], pf_container = [], pf_ports = [], pf_active = False\<rparr>),
         next_ref := Suc (next_ref st)\<rparr>)"

definition Start :: "env \<Rightarrow> ref \<Rightarrow> string \<Rightarrow> string \<Rightarrow> PortTunnel list \<Rightarrow> app \<Rightarrow> (error + nat) \<times> app" where
  "Start e pf path co tt st =
     (let st1 = emit (Call_Start pf path co) st in
      case pf_Start e path co tt of
        Inl err \<Rightarrow> (Inl err, st1)
      | Inr fwd \<Rightarrow>
          (Inr fwd,
           st1\<lparr>heap := (heap st1)(pf := (heap st1 pf)
                  \<lparr>pf_path := path, pf_container := co,
                   pf_ports := map (\<lambda>t. LocalPort t @ '':'' @ RemotePort t) tt\<rparr>)\<rparr>))"

subsection \<open>Formatting\<close>

text \<open>\<open>strconv.Itoa\<close>: the decimal digits, with a minus sign for a negative number.\<close>

definition digit :: "nat \<Rightarrow> char" where
  "digit n = ''0123456789abcdef'' ! (n mod 16)"

function decimal :: "nat \<Rightarrow> string" where
  "decimal n = (if n < 10 then [digit n] else decimal (n div 10) @ [digit (n mod 10)])"
  by pat_completeness auto
termination
  by (relation "measure id") auto

declare decimal.simps [simp del]

definition Itoa :: "int \<Rightarrow> string" where
  "Itoa i = (if i < 0 then ''-'' @ decimal (nat (- i)) else decimal (nat i))"

text \<open>
  The verb \<open>%q\<close> (\<open>strconv.Quote\<close>) on a string.  On ASCII the result is computed:
  the quote and the backslash are backslashed, the control characters are escaped, the
  rest is kept.  For a string with a byte from 128 on, where Go decodes UTF-8 and consults
  its tables of printable runes, the result is the collaborator's \<open>strconv_Quote\<close>.
\<close>

definition quote_char :: "char \<Rightarrow> string option" where
  "quote_char c =
     (let n = (of_char c :: nat) in
      if 128 \<le> n then None
      else if n = 34 then Some [CHR 0x5C, CHR 0x22]
      else if n = 92 then Some [CHR 0x5C, CHR 0x5C]
      else if n = 7 then Some (CHR 0x5C # ''a'')
      else if n = 8 then Some (CHR 0x5C # ''b'')
      else if n = 12 then Some (CHR 0x5C # ''f'')
      else if n = 10 then Some (CHR 0x5C # ''n'')
      else if n = 13 then Some (CHR 0x5C # ''r'')
      else if n = 9 then Some (CHR 0x5C # ''t'')
      else if n = 11 then Some (CHR 0x5C # ''v'')
      else if n < 32 \<or> n = 127
        then Some (CHR 0x5C # ''x'' @ [digit (n div 16), digit (n mod 16)])
      else Some [c])"

fun quote_ascii :: "string \<Rightarrow> string option" where
  "quote_ascii [] = Some []"
| "quote_ascii (c # cs) =
     (case quote_char c of
        None \<Rightarrow> None
      | Some q \<Rightarrow> (case quote_ascii cs of None \<Rightarrow> None | Some qs \<Rightarrow> Some (q @ qs)))"

definition Quote :: "env \<Rightarrow> string \<Rightarrow> string" where
  "Quote e s =
     (case quote_ascii s of
        Some q \<Rightarrow> [CHR 0x22] @ q @ [CHR 0x22]
      | None \<Rightarrow> strconv_Quote e s)"

text \<open>The verb \<open>%v\<close> on a \<open>[]string\<close>: the elements between brackets, a space apart.\<close>

fun spaced :: "string list \<Rightarrow> string" where
  "spaced [] = []"
| "spaced [x] = x"
| "spaced (x # y # ys) = x @ '' '' @ spaced (y # ys)"

definition fmt_strings :: "string list \<Rightarrow> string" where
  "fmt_strings xs = ''['' @ spaced xs @ '']''"

text \<open>
  Modelled from the spec: \<open>client.FQN\<close> is not among the sources; a candidate reads
  \<open>container/portName\<close>.
\<close>

definition FQN :: "string \<Rightarrow> string \<Rightarrow> string" where
  "FQN co n = co @ ''/'' @ n"

subsection \<open>The functions of the file\<close>

text \<open>\<open>fetchPodName\<close>, lines 66-77.  Line 69 returns the empty name and no error.\<close>

definition fetchPodName :: "env \<Rightarrow> string \<Rightarrow> app \<Rightarrow> (error + string) \<times> app" where
  "fetchPodName e path st =
     (let st1 = emit (Call_AccessorFor (GVR e)) st in
      case AccessorFor e (GVR e) of
        Inl err \<Rightarrow> (Inr [], st1)
      | Inr res \<Rightarrow>
          (case res of
             Accessor None \<Rightarrow>
               (Inl (Error (''expecting a controller resource for '' @ Quote e (GVR e))), st1)
           | Accessor (Some ctrl_Pod) \<Rightarrow> (ctrl_Pod path, emit (Call_Pod path) st1)))"

text \<open>\<open>tryListenPort\<close>, lines 82-88.\<close>

definition tryListenPort :: "env \<Rightarrow> string \<Rightarrow> string \<Rightarrow> app \<Rightarrow> error option \<times> app" where
  "tryListenPort e address port st =
     (let a = address @ '':'' @ port; st1 = emit (Call_Listen a) st in
      case net_Listen e a of
        Some err \<Rightarrow> (Some err, st1)
      | None \<Rightarrow> (server_Close e a, emit (Call_Close a) st1))"

text \<open>\<open>runForward\<close>, lines 90-108: the body of the goroutine.\<close>

definition runForward :: "env \<Rightarrow> ref \<Rightarrow> nat \<Rightarrow> app \<Rightarrow> app" where
  "runForward e pf f st =
     (let st1 = AddForwarder pf st;
          st2 = QueueUpdateDraw (Activated pf) st1;
          st3 = SetActive pf True st2;
          st4 = emit (Call_ForwardPorts f) st3
      in case ForwardPorts e f of
           Some err \<Rightarrow> Flash_Err err st4
         | None \<Rightarrow> QueueUpdateDraw (Retire pf) st4)"

text \<open>The loop of \<open>startFwdCB\<close>, lines 111-117: the first error ends it.\<close>

fun tryListenPorts :: "env \<Rightarrow> PortTunnel list \<Rightarrow> app \<Rightarrow> error option \<times> app" where
  "tryListenPorts e [] st = (None, st)"
| "tryListenPorts e (t # tt) st =
     (case tryListenPort e (Address t) (LocalPort t) st of
        (Some err, st1) \<Rightarrow> (Some err, st1)
      | (None, st1) \<Rightarrow> tryListenPorts e tt st1)"

definition go :: "task \<Rightarrow> app \<Rightarrow> app" where
  "go t st = emit (Go t) (st\<lparr>goroutines := goroutines st @ [t]\<rparr>)"

text \<open>
  \<open>startFwdCB\<close>, lines 110-133.  The debug log line 131 writes to the log file only and is
  left out.
\<close>

definition startFwdCB :: "env \<Rightarrow> string \<Rightarrow> string \<Rightarrow> PortTunnel list \<Rightarrow> app \<Rightarrow> app" where
  "startFwdCB e path co tt st =
     (case tryListenPorts e tt st of
        (Some err, st1) \<Rightarrow> Flash_Err err st1
      | (None, st1) \<Rightarrow>
          (case ForwarderFor st1 (PortForwardID path co) of
             Some _ \<Rightarrow> Flash_Err (Error ''A port-forward is already active on this pod'') st1
           | None \<Rightarrow>
               (let (pf, st2) = NewPortForwarder st1 in
                case Start e pf path co tt st2 of
                  (Inl err, st3) \<Rightarrow> Flash_Err err st3
                | (Inr fwd, st3) \<Rightarrow> go (RunForward pf fwd) st3)))"

text \<open>\<open>fetchPodPorts\<close>, lines 175-194.  The Go map is a list of pairs with distinct keys.\<close>

definition fetchPodPorts ::
  "env \<Rightarrow> string \<Rightarrow> app \<Rightarrow> panic + ((error + (string \<times> ContainerPort list) list) \<times> app)" where
  "fetchPodPorts e path st =
     (let st1 = emit (Call_Get path) st in
      case factory_Get e path of
        Inl err \<Rightarrow> Inr (Inl err, st1)
      | Inr ob \<Rightarrow>
          (case ob of
             OtherObject \<Rightarrow> Inl TypeAssertion
           | Unstructured decoded \<Rightarrow>
               (case decoded of
                  Inl err \<Rightarrow> Inr (Inl err, st1)
                | Inr pod \<Rightarrow>
                    Inr (Inr (foldl (\<lambda>pp co. AList.update (co_Name co) (co_Ports co) pp) []
                                (Spec_Containers pod)), st1))))"

text \<open>The candidates of one container, the inner loop of lines 142-147.\<close>

definition candidates :: "string \<Rightarrow> ContainerPort list \<Rightarrow> string list" where
  "candidates co pp =
     map (\<lambda>p. FQN co (Name p) @ '':'' @ Itoa (sint (ContainerPort p)))
       (filter (\<lambda>p. Protocol p = ProtocolTCP) pp)"

text \<open>\<open>showFwdDialog\<close>, lines 135-152.\<close>

definition showFwdDialog ::
  "env \<Rightarrow> string \<Rightarrow> callback \<Rightarrow> app \<Rightarrow> panic + (error option \<times> app)" where
  "showFwdDialog e path cb st =
     (case fetchPodPorts e path st of
        Inl p \<Rightarrow> Inl p
      | Inr (Inl err, st1) \<Rightarrow> Inr (Some err, st1)
      | Inr (Inr mm, st1) \<Rightarrow>
          Inr (None,
               ShowPortForwards path
                 (concat (map (\<lambda>(co, pp). candidates co pp) (map_range e mm))) cb st1))"

text \<open>
  \<open>showDeleteFwdDialog\<close>, lines 154-173.  The format of line 163 has one verb for two
  operands, so \<open>Sprintf\<close> appends the second as an \<open>EXTRA\<close> operand.
\<close>

definition binding :: "app \<Rightarrow> ref \<Rightarrow> string" where
  "binding st pf =
     [CHR 0x0A, CHR 0x0D] @ pf_container (heap st pf) @ fmt_strings (pf_ports (heap st pf))"

definition showDeleteFwdDialog :: "string \<Rightarrow> ref list \<Rightarrow> app \<Rightarrow> error option \<times> app" where
  "showDeleteFwdDialog path fs st =
     (let xxx = foldl (\<lambda>acc pf. acc @ binding st pf) [] fs in
      (None,
       showModal (''Delete PortForward '' @ path @ ''?'' @ ''%!(EXTRA string='' @ xxx @ '')'')
         (DeleteFwdOK path) st))"

text \<open>
  Modelled from the spec: \<open>dao.PortForward.Delete\<close> is not among the sources; it issues
  the remote delete of the forward and then removes every registry entry of the pod.
\<close>

definition dao_Delete :: "env \<Rightarrow> string \<Rightarrow> app \<Rightarrow> error option \<times> app" where
  "dao_Delete e path st =
     (let st1 = emit (Call_Delete path) st in
      case pf_Delete e path of
        Some err \<Rightarrow> (Some err, st1)
      | None \<Rightarrow>
          (None, fold (\<lambda>pf s. DeleteForwarder (pf_FQN s pf) s) (GetForwarders st1 path) st1))"

text \<open>The confirmation closure of \<open>showDeleteFwdDialog\<close>, lines 163-170.\<close>

definition deleteFwdOK :: "env \<Rightarrow> string \<Rightarrow> app \<Rightarrow> app" where
  "deleteFwdOK e path st =
     (case dao_Delete e path st of
        (Some err, st1) \<Rightarrow> Flash_Err err st1
      | (None, st1) \<Rightarrow> emit Refresh (Flash_Infof (''PortForward '' @ path @ '' deleted!'') st1))"

text \<open>\<open>portFwdCmd\<close>, lines 41-64.  The result is the event handed back, or \<open>nil\<close>.\<close>

definition portFwdCmd :: "env \<Rightarrow> 'k \<Rightarrow> app \<Rightarrow> panic + ('k option \<times> app)" where
  "portFwdCmd e evt st =
     (let path = GetSelectedItem e in
      if path = [] then Inr (Some evt, st)
      else
        case fetchPodName e path st of
          (Inl err, st1) \<Rightarrow> Inr (None, Flash_Err err st1)
        | (Inr pod, st1) \<Rightarrow>
            (let fs = GetForwarders st1 pod in
             if length fs \<noteq> 0 then
               (case showDeleteFwdDialog pod fs st1 of
                  (Some err, st2) \<Rightarrow> Inr (None, Flash_Err err st2)
                | (None, st2) \<Rightarrow> Inr (None, st2))
             else
               (case showFwdDialog e pod StartFwdCB st1 of
                  Inl p \<Rightarrow> Inl p
                | Inr (Some err, st2) \<Rightarrow> Inr (None, Flash_Err err st2)
                | Inr (None, st2) \<Rightarrow> Inr (None, st2))))"

subsection \<open>The UI loop and the scheduler\<close>

text \<open>What the two queued closures of \<open>runForward\<close> do when the UI loop runs them.\<close>

fun run_closure :: "closure \<Rightarrow> app \<Rightarrow> panic + app" where
  "run_closure (Activated pf) st =
     (case pf_ports (heap st pf) of
        [] \<Rightarrow> Inl IndexOutOfRange
      | p # _ \<Rightarrow>
          Inr (DismissPortForwards
                 (Flash_Infof (''PortForward activated '' @ pf_path (heap st pf) @ '':'' @ p) st)))"
| "run_closure (Retire pf) st = Inr (SetActive pf False (DeleteForwarder (pf_FQN st pf) st))"

fun run_closures :: "closure list \<Rightarrow> app \<Rightarrow> panic + app" where
  "run_closures [] st = Inr st"
| "run_closures (c # cs) st =
     (case run_closure c st of Inl p \<Rightarrow> Inl p | Inr st1 \<Rightarrow> run_closures cs st1)"

text \<open>The UI loop takes the queued closures in submission order and runs them.\<close>

definition ui_loop :: "app \<Rightarrow> panic + app" where
  "ui_loop st = run_closures (updates st) (st\<lparr>updates := [], thread := UIThread\<rparr>)"

text \<open>A goroutine runs its body on a thread of its own.\<close>

fun run_task :: "env \<Rightarrow> task \<Rightarrow> app \<Rightarrow> app" where
  "run_task e (RunForward pf f) st = runForward e pf f (st\<lparr>thread := Background\<rparr>)"

subsection \<open>Kinds of action\<close>

text \<open>The two calls of \<open>tryListenPort\<close>.\<close>

definition is_probe :: "action \<Rightarrow> bool" where
  "is_probe a = (case a of Call_Listen _ \<Rightarrow> True | Call_Close _ \<Rightarrow> True | _ \<Rightarrow> False)"

text \<open>What the two queued closures of \<open>runForward\<close> may do.\<close>

definition is_ui_update :: "action \<Rightarrow> bool" where
  "is_ui_update a =
     (case a of Flash (Info _) \<Rightarrow> True | Dismiss \<Rightarrow> True | Registry_Delete _ \<Rightarrow> True
      | Set_Active _ b \<Rightarrow> \<not> b | _ \<Rightarrow> False)"

subsection \<open>Concrete scenarios\<close>

text \<open>
  The pod \<open>ns/web-0\<close> has one container \<open>app\<close> with the TCP port \<open>http:8080\<close> and the
  UDP port \<open>dns:53\<close>; the operator maps the local port 9090.
\<close>

definition blank :: Forwarder where
  "blank = \<lparr>pf_path = [], pf_container = [], pf_ports = [], pf_active = False\<rparr>"

definition app0 :: app where
  "app0 = \<lparr>heap = (\<lambda>_. blank), next_ref = 0, forwarders = [], flash = [], pages = [],
            updates = [], goroutines = [], thread = UIThread, log = []\<rparr>"

definition web0 :: Pod where
  "web0 = \<lparr>Spec_Containers =
            [\<lparr>co_Name = ''app'',
              co_Ports = [\<lparr>Name = ''http'', ContainerPort = 8080, Protocol = ''TCP''\<rparr>,
                          \<lparr>Name = ''dns'', ContainerPort = 53, Protocol = ''UDP''\<rparr>]\<rparr>]\<rparr>"

definition tunnels0 :: "PortTunnel list" where
  "tunnels0 = [\<lparr>Address = ''127.0.0.1'', LocalPort = ''9090'', RemotePort = ''8080''\<rparr>]"

text \<open>
  Every collaborator answers; the tunnel closes without an error.  The kinds of the
  scenarios are plain ASCII, so \<open>strconv_Quote\<close> is never consulted.
\<close>

definition env0 :: env where
  "env0 = \<lparr>GetSelectedItem = ''ns/web-0'', GVR = ''v1/pods'',
            AccessorFor = (\<lambda>_. Inr (Accessor (Some (\<lambda>p. Inr p)))),
            net_Listen = (\<lambda>_. None), server_Close = (\<lambda>_. None),
            factory_Get = (\<lambda>_. Inr (Unstructured (Inr web0))),
            pf_Start = (\<lambda>_ _ _. Inr 7), pf_Delete = (\<lambda>_. None),
            ForwardPorts = (\<lambda>_. None),
            strconv_Quote = (\<lambda>s. [CHR 0x22] @ s @ [CHR 0x22]), map_range = rev\<rparr>"

text \<open>The transport fails while forwarding.\<close>

definition env_transport_error :: env where
  "env_transport_error = env0\<lparr>ForwardPorts := (\<lambda>_. Some (Error ''lost connection''))\<rparr>"

text \<open>No row of the table is selected.\<close>

definition env_no_selection :: env where
  "env_no_selection = env0\<lparr>GetSelectedItem := []\<rparr>"

text \<open>A batch of two local ports, of which 9090 is bound by another process.\<close>

definition tunnels2 :: "PortTunnel list" where
  "tunnels2 = [\<lparr>Address = ''127.0.0.1'', LocalPort = ''9091'', RemotePort = ''8081''\<rparr>,
               \<lparr>Address = ''127.0.0.1'', LocalPort = ''9090'', RemotePort = ''8080''\<rparr>]"

definition env_port_taken :: env where
  "env_port_taken =
     env0\<lparr>net_Listen := (\<lambda>a. if a = ''127.0.0.1:9090''
                               then Some (Error ''bind: address already in use'') else None)\<rparr>"

text \<open>The application with one session \<open>ns/web-0|app\<close> registered and forwarding.\<close>

definition app1 :: app where
  "app1 = app0\<lparr>heap := (heap app0)(0 := \<lparr>pf_path = ''ns/web-0'', pf_container = ''app'',
                                         pf_ports = [''9090:8080''], pf_active = True\<rparr>),
               next_ref := 1, forwarders := [(''ns/web-0|app'', 0)]\<rparr>"

text \<open>The accessor of the resource kind cannot be obtained.\<close>

definition env_no_accessor :: env where
  "env_no_accessor = env0\<lparr>AccessorFor := (\<lambda>_. Inl (Error ''no accessor for v1/pods''))\<rparr>"

text \<open>The application after a successful start of \<open>ns/web-0|app\<close> on local port 9090.\<close>

definition started :: app where
  "started = startFwdCB env0 ''ns/web-0'' ''app'' tunnels0 app0"

text \<open>A pod with two containers, each with one TCP and one UDP port.\<close>

definition web2 :: Pod where
  "web2 = \<lparr>Spec_Containers =
            [\<lparr>co_Name = ''app'',
              co_Ports = [\<lparr>Name = ''http'', ContainerPort = 8080, Protocol = ''TCP''\<rparr>,
                          \<lparr>Name = ''dns'', ContainerPort = 53, Protocol = ''UDP''\<rparr>]\<rparr>,
             \<lparr>co_Name = ''sidecar'',
              co_Ports = [\<lparr>Name = ''syslog'', ContainerPort = 514, Protocol = ''UDP''\<rparr>,
                          \<lparr>Name = ''metrics'', ContainerPort = 9102, Protocol = ''TCP''\<rparr>]\<rparr>]\<rparr>"

definition env_two_containers :: env where
  "env_two_containers = env0\<lparr>factory_Get := (\<lambda>_. Inr (Unstructured (Inr web2)))\<rparr>"

text \<open>The selected resource is of a kind whose accessor is no controller.\<close>

definition env_not_controller :: env where
  "env_not_controller = env0\<lparr>GVR := ''v1/nodes'', AccessorFor := (\<lambda>_. Inr (Accessor None))\<rparr>"

text \<open>The deployment \<open>ns/web\<close> is selected; its controller resolves it to the pod \<open>ns/web-0\<close>.\<close>

definition deploy_Pod :: "string \<Rightarrow> error + string" where
  "deploy_Pod p = (if p = ''ns/web'' then Inr ''ns/web-0''
                   else Inl (Error (''deployment not found: '' @ p)))"

definition env_deploy :: env where
  "env_deploy = env0\<lparr>GetSelectedItem := ''ns/web'', GVR := ''apps/v1/deployments'',
                      AccessorFor := (\<lambda>_. Inr (Accessor (Some deploy_Pod)))\<rparr>"

text \<open>The deployment \<open>ns/web\<close> is selected and has no pod.\<close>

definition no_Pod :: "string \<Rightarrow> error + string" where
  "no_Pod p = Inl (Error (''no pods found for '' @ p))"

definition env_no_pods :: env where
  "env_no_pods = env_deploy\<lparr>AccessorFor := (\<lambda>_. Inr (Accessor (Some no_Pod)))\<rparr>"

section \<open>Properties\<close>

subsection \<open>Frame lemmas of the primitives\<close>

lemma emit_fields [simp]:
  "heap (emit a st) = heap st" "next_ref (emit a st) = next_ref st"
  "forwarders (emit a st) = forwarders st" "flash (emit a st) = flash st"
  "pages (emit a st) = pages st" "updates (emit a st) = updates st"
  "goroutines (emit a st) = goroutines st" "thread (emit a st) = thread st"
  "log (emit a st) = log st @ [(thread st, a)]"
  by (simp_all add: emit_def)

lemma Flash_Err_fields [simp]:
  "heap (Flash_Err err st) = heap st" "next_ref (Flash_Err err st) = next_ref st"
  "forwarders (Flash_Err err st) = forwarders st" "flash (Flash_Err err st) = flash st @ [Err err]"
  "pages (Flash_Err err st) = pages st" "updates (Flash_Err err st) = updates st"
  "goroutines (Flash_Err err st) = goroutines st" "thread (Flash_Err err st) = thread st"
  "log (Flash_Err err st) = log st @ [(thread st, Flash (Err err))]"
  by (simp_all add: Flash_Err_def)

lemma tryListenPort_result:
  "fst (tryListenPort e a p st) =
     (case net_Listen e (a @ '':'' @ p) of Some err \<Rightarrow> Some err | None \<Rightarrow> server_Close e (a @ '':'' @ p))"
  by (simp add: tryListenPort_def Let_def split: option.split)

lemma tryListenPort_frame:
  assumes "tryListenPort e a p st = (r, st')"
  shows "heap st' = heap st" "next_ref st' = next_ref st" "forwarders st' = forwarders st"
    "flash st' = flash st" "pages st' = pages st" "updates st' = updates st"
    "goroutines st' = goroutines st" "thread st' = thread st"
    "\<exists>evs. log st' = log st @ evs \<and> (\<forall>x\<in>set evs. is_probe (snd x))"
  using assms by (auto simp: tryListenPort_def Let_def is_probe_def split: option.splits)

lemma tryListenPorts_frame:
  assumes "tryListenPorts e tt st = (r, st')"
  shows "heap st' = heap st \<and> next_ref st' = next_ref st \<and> forwarders st' = forwarders st \<and>
    flash st' = flash st \<and> pages st' = pages st \<and> updates st' = updates st \<and>
    goroutines st' = goroutines st \<and> thread st' = thread st \<and>
    (\<exists>evs. log st' = log st @ evs \<and> (\<forall>x\<in>set evs. is_probe (snd x)))"
  using assms
proof (induction tt arbitrary: st)
  case Nil
  then show ?case by simp
next
  case (Cons t tt)
  obtain r1 st1 where s1: "tryListenPort e (Address t) (LocalPort t) st = (r1, st1)"
    by (cases "tryListenPort e (Address t) (LocalPort t) st")
  note f1 = tryListenPort_frame [OF s1]
  show ?case
  proof (cases r1)
    case None
    with Cons.prems s1 have "tryListenPorts e tt st1 = (r, st')" by simp
    from Cons.IH [OF this] f1 show ?thesis by auto
  next
    case (Some err)
    with Cons.prems s1 have "st' = st1" by simp
    with f1 show ?thesis by auto
  qed
qed

lemma tryListenPorts_fails:
  assumes "t \<in> set tt" "fst (tryListenPort e (Address t) (LocalPort t) s) \<noteq> None"
  shows "fst (tryListenPorts e tt st) \<noteq> None"
  using assms
proof (induction tt arbitrary: st)
  case Nil
  then show ?case by simp
next
  case (Cons u tt)
  obtain r1 st1 where s1: "tryListenPort e (Address u) (LocalPort u) st = (r1, st1)"
    by (cases "tryListenPort e (Address u) (LocalPort u) st")
  show ?case
  proof (cases r1)
    case (Some err)
    with s1 show ?thesis by simp
  next
    case None
    have "t \<noteq> u"
    proof
      assume "t = u"
      with Cons.prems(2) have "fst (tryListenPort e (Address u) (LocalPort u) st) \<noteq> None"
        by (simp add: tryListenPort_result)
      with s1 None show False by simp
    qed
    with Cons.prems have "t \<in> set tt" by simp
    from Cons.IH [OF this Cons.prems(2)] s1 None show ?thesis by simp
  qed
qed

lemma tryListenPorts_error_from:
  assumes "fst (tryListenPorts e tt st) = Some err"
  shows "\<exists>t\<in>set tt. fst (tryListenPort e (Address t) (LocalPort t) s) = Some err"
  using assms
proof (induction tt arbitrary: st)
  case Nil
  then show ?case by simp
next
  case (Cons u tt)
  obtain r1 st1 where s1: "tryListenPort e (Address u) (LocalPort u) st = (r1, st1)"
    by (cases "tryListenPort e (Address u) (LocalPort u) st")
  show ?case
  proof (cases r1)
    case (Some err1)
    with s1 Cons.prems have "err1 = err" by simp
    with s1 Some have "fst (tryListenPort e (Address u) (LocalPort u) st) = Some err" by simp
    then have "fst (tryListenPort e (Address u) (LocalPort u) s) = Some err"
      by (simp add: tryListenPort_result)
    then show ?thesis by auto
  next
    case None
    with s1 Cons.prems have "fst (tryListenPorts e tt st1) = Some err" by simp
    from Cons.IH [OF this] show ?thesis by auto
  qed
qed

subsection \<open>The trigger without a selected row\<close>

text \<open>
  C10.  When the selected item of the table is the empty string, \<open>portFwdCmd\<close> hands the
  key event back and returns the application state as it was: the log is unchanged, so no
  collaborator was called (no pod resolution), and no dialog, flash message or registry
  entry was added or removed.
\<close>

theorem portFwdCmd_no_selection:
  "GetSelectedItem e = [] \<Longrightarrow> portFwdCmd e evt st = Inr (Some evt, st)"
  by (simp add: portFwdCmd_def)

theorem portFwdCmd_no_selection_witness:
  "GetSelectedItem env_no_selection = [] \<and>
   portFwdCmd env_no_selection (0::nat) app0 = Inr (Some 0, app0)"
  using portFwdCmd_no_selection [of env_no_selection "0::nat" app0]
  by (simp add: env_no_selection_def env0_def)

subsection \<open>Validation of the local ports\<close>

text \<open>
  C2.  If the availability check \<open>tryListenPort\<close> fails for any tunnel of the batch, then
  \<open>startFwdCB\<close> surfaces one error, which is the bind error of a tunnel of the batch, and
  stops: the registry is as before (no entry created), the heap and the allocation counter
  are as before (no session constructed), no goroutine is started and nothing is queued;
  apart from the flash message the log holds only listen and close calls.
\<close>

theorem startFwdCB_port_unavailable:
  assumes "t \<in> set tt"
    and "fst (tryListenPort e (Address t) (LocalPort t) st) \<noteq> None"
  shows "forwarders (startFwdCB e path co tt st) = forwarders st \<and>
         heap (startFwdCB e path co tt st) = heap st \<and>
         next_ref (startFwdCB e path co tt st) = next_ref st \<and>
         goroutines (startFwdCB e path co tt st) = goroutines st \<and>
         updates (startFwdCB e path co tt st) = updates st \<and>
         pages (startFwdCB e path co tt st) = pages st \<and>
         (\<exists>err. flash (startFwdCB e path co tt st) = flash st @ [Err err] \<and>
            (\<exists>u\<in>set tt. fst (tryListenPort e (Address u) (LocalPort u) st) = Some err) \<and>
            (\<exists>evs. log (startFwdCB e path co tt st) = log st @ evs @ [(thread st, Flash (Err err))] \<and>
               (\<forall>x\<in>set evs. is_probe (snd x))))"
proof -
  obtain r st1 where run: "tryListenPorts e tt st = (r, st1)"
    by (cases "tryListenPorts e tt st")
  from tryListenPorts_fails [OF assms, of st] run obtain err where r: "r = Some err"
    by auto
  from run r have "fst (tryListenPorts e tt st) = Some err" by simp
  from tryListenPorts_error_from [OF this, of st]
  have src: "\<exists>u\<in>set tt. fst (tryListenPort e (Address u) (LocalPort u) st) = Some err" .
  from run r have res: "startFwdCB e path co tt st = Flash_Err err st1"
    by (simp add: startFwdCB_def)
  from tryListenPorts_frame [OF run] src show ?thesis
    unfolding res by auto
qed


theorem startFwdCB_port_unavailable_witness:
  "tunnels0 ! 0 \<in> set tunnels2 \<and>
   fst (tryListenPort env_port_taken (Address (tunnels0 ! 0)) (LocalPort (tunnels0 ! 0)) app0) \<noteq> None \<and>
   forwarders (startFwdCB env_port_taken ''ns/web-0'' ''app'' tunnels2 app0) = [] \<and>
   goroutines (startFwdCB env_port_taken ''ns/web-0'' ''app'' tunnels2 app0) = [] \<and>
   next_ref (startFwdCB env_port_taken ''ns/web-0'' ''app'' tunnels2 app0) = 0 \<and>
   flash (startFwdCB env_port_taken ''ns/web-0'' ''app'' tunnels2 app0) =
     [Err (Error ''bind: address already in use'')]"
proof -
  have h1: "tunnels0 ! 0 \<in> set tunnels2"
    by (simp add: tunnels0_def tunnels2_def)
  have h2: "fst (tryListenPort env_port_taken (Address (tunnels0 ! 0)) (LocalPort (tunnels0 ! 0)) app0) \<noteq> None"
    by (simp add: tryListenPort_result tunnels0_def env_port_taken_def env0_def)
  have h3: "\<And>u err. u \<in> set tunnels2 \<Longrightarrow>
      fst (tryListenPort env_port_taken (Address u) (LocalPort u) app0) = Some err \<Longrightarrow>
      err = Error ''bind: address already in use''"
    by (auto simp: tryListenPort_result tunnels2_def env_port_taken_def env0_def split: if_splits)
  from startFwdCB_port_unavailable [OF h1 h2, of "''ns/web-0''" "''app''"] h1 h2 h3
  show ?thesis
    by (auto simp: app0_def)
qed

subsection \<open>Evaluation of the scenarios\<close>

lemmas prims = emit_def Flash_Err_def Flash_Infof_def QueueUpdateDraw_def SetActive_def
  ShowPortForwards_def showModal_def DismissPortForwards_def AddForwarder_def DeleteForwarder_def
  ForwarderFor_def GetForwarders_def NewPortForwarder_def Start_def go_def pf_FQN_def
  PortForwardID_def

lemmas scen = app0_def app1_def env0_def env_transport_error_def env_no_selection_def
  env_port_taken_def env_no_accessor_def tunnels0_def tunnels2_def blank_def web0_def

lemma started_fields:
  "forwarders started = []" "goroutines started = [RunForward 0 7]" "flash started = []"
  "heap started 0 = \<lparr>pf_path = ''ns/web-0'', pf_container = ''app'',
                       pf_ports = [''9090:8080''], pf_active = False\<rparr>"
  "updates started = []" "pages started = []" "next_ref started = 1"
  "log started = [(UIThread, Call_Listen ''127.0.0.1:9090''),
                  (UIThread, Call_Close ''127.0.0.1:9090''),
                  (UIThread, Call_Start 0 ''ns/web-0'' ''app''),
                  (UIThread, Go (RunForward 0 7))]"
  by (simp_all add: started_def startFwdCB_def tryListenPort_def prims scen Let_def)

subsection \<open>A start for a key that is already registered\<close>

text \<open>
  C8.  When the ports of the batch pass the availability check and the registry already
  holds an entry under the session key of the pod path and the container, \<open>startFwdCB\<close>
  flashes the error "A port-forward is already active on this pod" and stops: no session
  is constructed (heap and allocation counter as before, so the existing session object is
  untouched), the registry is as before, and no goroutine is started.
\<close>

theorem startFwdCB_duplicate:
  assumes "fst (tryListenPorts e tt st) = None"
    and "ForwarderFor st (PortForwardID path co) = Some pf"
  shows "flash (startFwdCB e path co tt st) =
           flash st @ [Err (Error ''A port-forward is already active on this pod'')] \<and>
         forwarders (startFwdCB e path co tt st) = forwarders st \<and>
         heap (startFwdCB e path co tt st) = heap st \<and>
         next_ref (startFwdCB e path co tt st) = next_ref st \<and>
         goroutines (startFwdCB e path co tt st) = goroutines st \<and>
         updates (startFwdCB e path co tt st) = updates st \<and>
         pages (startFwdCB e path co tt st) = pages st \<and>
         (\<exists>evs. log (startFwdCB e path co tt st) =
                  log st @ evs @
                  [(thread st, Flash (Err (Error ''A port-forward is already active on this pod'')))] \<and>
                (\<forall>x\<in>set evs. is_probe (snd x)))"
proof -
  obtain st1 where run: "tryListenPorts e tt st = (None, st1)"
    using assms(1) by (cases "tryListenPorts e tt st") simp
  note fr = tryListenPorts_frame [OF run]
  from fr assms(2) have look: "ForwarderFor st1 (PortForwardID path co) = Some pf"
    by (simp add: ForwarderFor_def)
  from run look
  have res: "startFwdCB e path co tt st =
               Flash_Err (Error ''A port-forward is already active on this pod'') st1"
    by (simp add: startFwdCB_def)
  from fr show ?thesis
    unfolding res by auto
qed

theorem startFwdCB_duplicate_witness:
  "fst (tryListenPorts env0 tunnels0 app1) = None \<and>
   ForwarderFor app1 (PortForwardID ''ns/web-0'' ''app'') = Some 0 \<and>
   flash (startFwdCB env0 ''ns/web-0'' ''app'' tunnels0 app1) =
     [Err (Error ''A port-forward is already active on this pod'')] \<and>
   forwarders (startFwdCB env0 ''ns/web-0'' ''app'' tunnels0 app1) = [(''ns/web-0|app'', 0)] \<and>
   next_ref (startFwdCB env0 ''ns/web-0'' ''app'' tunnels0 app1) = 1 \<and>
   goroutines (startFwdCB env0 ''ns/web-0'' ''app'' tunnels0 app1) = []"
proof -
  have h1: "fst (tryListenPorts env0 tunnels0 app1) = None"
    by (simp add: tunnels0_def tryListenPort_def env0_def Let_def)
  have h2: "ForwarderFor app1 (PortForwardID ''ns/web-0'' ''app'') = Some 0"
    by (simp add: ForwarderFor_def PortForwardID_def app1_def)
  from startFwdCB_duplicate [OF h1 h2] h1 h2 show ?thesis
    by (simp add: app1_def app0_def)
qed

subsection \<open>Termination of the background task\<close>

text \<open>
  C1.  Cleanup on every termination cause does not hold on the error path.  On the
  scenario where the transport fails, after the goroutine has returned and the UI loop has
  run everything queued, the session is still registered and its active flag is still
  true; where the tunnel closes without an error, the same run ends with the session
  removed and the flag cleared.
\<close>

theorem runForward_transport_error_skips_cleanup:
  "map_sum id (\<lambda>st. (ForwarderFor st ''ns/web-0|app'', pf_active (heap st 0), flash st))
     (ui_loop (run_task env_transport_error (RunForward 0 7) started)) =
   Inr (Some 0, True,
        [Err (Error ''lost connection''), Info ''PortForward activated ns/web-0:9090:8080'']) \<and>
   map_sum id (\<lambda>st. (ForwarderFor st ''ns/web-0|app'', pf_active (heap st 0), flash st))
     (ui_loop (run_task env0 (RunForward 0 7) started)) =
   Inr (None, False, [Info ''PortForward activated ns/web-0:9090:8080''])"
  by (simp add: ui_loop_def runForward_def started_fields prims scen Let_def)

subsection \<open>Errors while resolving the pod\<close>

text \<open>
  C4.  Not every collaborator error met while resolving the pod reaches the user.  On the
  scenario where \<open>AccessorFor\<close> fails, \<open>fetchPodName\<close> answers the empty pod name
  without an error, and \<open>portFwdCmd\<close> goes on: nothing is flashed and the selection
  dialog opens for the empty pod name.
\<close>

theorem fetchPodName_drops_accessor_error:
  "AccessorFor env_no_accessor (GVR env_no_accessor) = Inl (Error ''no accessor for v1/pods'') \<and>
   fst (fetchPodName env_no_accessor ''ns/web-0'' app0) = Inr [] \<and>
   map_sum id (\<lambda>(r, st). (r, flash st, pages st)) (portFwdCmd env_no_accessor (0::nat) app0) =
     Inr (None, [], [PortForwardDialog [] [''app/http:8080''] StartFwdCB])"
  by (simp add: fetchPodName_def portFwdCmd_def showFwdDialog_def fetchPodPorts_def
        candidates_def FQN_def Itoa_def decimal.simps digit_def ProtocolTCP_def prims scen Let_def)

subsection \<open>What the background task does, step by step\<close>

lemma runForward_log:
  "log (runForward e pf f s) =
     log s @ [(thread s, Registry_Add pf), (thread s, Queue (Activated pf)),
              (thread s, Set_Active pf True), (thread s, Call_ForwardPorts f),
              (thread s, case ForwardPorts e f of Some err \<Rightarrow> Flash (Err err)
                                                 | None \<Rightarrow> Queue (Retire pf))]"
  by (simp add: runForward_def prims Let_def split: option.split)

lemma runForward_heap:
  "heap (runForward e pf f s) = (heap s)(pf := (heap s pf)\<lparr>pf_active := True\<rparr>)"
  by (simp add: runForward_def prims Let_def split: option.split)

lemma runForward_updates:
  "updates (runForward e pf f s) =
     updates s @ Activated pf # (case ForwardPorts e f of Some _ \<Rightarrow> [] | None \<Rightarrow> [Retire pf])"
  by (simp add: runForward_def prims Let_def split: option.split)

lemma runForward_forwarders:
  "forwarders (runForward e pf f s) =
     (case map_of (forwarders s) (pf_FQN s pf) of
        Some _ \<Rightarrow> forwarders s
      | None \<Rightarrow> forwarders s @ [(pf_FQN s pf, pf)])"
  by (simp add: runForward_def prims Let_def split: option.split)

lemma startFwdCB_success:
  assumes "fst (tryListenPorts e tt st) = None"
    and "ForwarderFor st (PortForwardID path co) = None"
    and "pf_Start e path co tt = Inr fwd"
  shows "\<exists>st1 evs.
           tryListenPorts e tt st = (None, st1) \<and>
           log st1 = log st @ evs \<and> (\<forall>x\<in>set evs. is_probe (snd x)) \<and>
           startFwdCB e path co tt st =
             st1\<lparr>heap := (heap st)(next_ref st :=
                     \<lparr>pf_path = path, pf_container = co,
                      pf_ports = map (\<lambda>t. LocalPort t @ '':'' @ RemotePort t) tt,
                      pf_active = False\<rparr>),
                 next_ref := Suc (next_ref st),
                 goroutines := goroutines st @ [RunForward (next_ref st) fwd],
                 log := log st1 @ [(thread st, Call_Start (next_ref st) path co),
                                   (thread st, Go (RunForward (next_ref st) fwd))]\<rparr>"
proof -
  obtain st1 where run: "tryListenPorts e tt st = (None, st1)"
    using assms(1) by (cases "tryListenPorts e tt st") simp
  note fr = tryListenPorts_frame [OF run]
  from fr obtain evs where l: "log st1 = log st @ evs" and p: "\<forall>x\<in>set evs. is_probe (snd x)"
    by blast
  from fr assms(2) have look: "ForwarderFor st1 (PortForwardID path co) = None"
    by (simp add: ForwarderFor_def)
  from run look assms(3) fr
  have "startFwdCB e path co tt st =
             st1\<lparr>heap := (heap st)(next_ref st :=
                     \<lparr>pf_path = path, pf_container = co,
                      pf_ports = map (\<lambda>t. LocalPort t @ '':'' @ RemotePort t) tt,
                      pf_active = False\<rparr>),
                 next_ref := Suc (next_ref st),
                 goroutines := goroutines st @ [RunForward (next_ref st) fwd],
                 log := log st1 @ [(thread st, Call_Start (next_ref st) path co),
                                   (thread st, Go (RunForward (next_ref st) fwd))]\<rparr>"
    by (simp add: startFwdCB_def NewPortForwarder_def Start_def go_def emit_def Let_def)
  with run l p show ?thesis by blast
qed

subsection \<open>Who registers the session\<close>

text \<open>
  C3, as the code has it.  For every successful start flow (the ports pass the check, the
  key is free, \<open>Start\<close> succeeds) \<open>startFwdCB\<close> constructs the session and launches
  \<open>runForward\<close> as a goroutine without registering it: the registry is as before and no
  \<open>AddForwarder\<close> of the session is logged.  The registration is the first action of
  \<open>runForward\<close> itself, on the background task, and it puts the session under its key.
\<close>

theorem runForward_registers_session:
  assumes "fst (tryListenPorts e tt st) = None"
    and "ForwarderFor st (PortForwardID path co) = None"
    and "pf_Start e path co tt = Inr fwd"
  shows "forwarders (startFwdCB e path co tt st) = forwarders st \<and>
         goroutines (startFwdCB e path co tt st) = goroutines st @ [RunForward (next_ref st) fwd] \<and>
         (\<forall>x\<in>set (log (startFwdCB e path co tt st)).
            snd x = Registry_Add (next_ref st) \<longrightarrow> x \<in> set (log st)) \<and>
         (\<exists>rest. log (run_task e (RunForward (next_ref st) fwd) (startFwdCB e path co tt st)) =
                   log (startFwdCB e path co tt st) @
                   (Background, Registry_Add (next_ref st)) # rest) \<and>
         forwarders (run_task e (RunForward (next_ref st) fwd) (startFwdCB e path co tt st)) =
           forwarders st @ [(PortForwardID path co, next_ref st)]"
proof -
  from startFwdCB_success [OF assms] obtain st1 evs where
    run: "tryListenPorts e tt st = (None, st1)" and l: "log st1 = log st @ evs"
    and p: "\<forall>x\<in>set evs. is_probe (snd x)"
    and res: "startFwdCB e path co tt st =
             st1\<lparr>heap := (heap st)(next_ref st :=
                     \<lparr>pf_path = path, pf_container = co,
                      pf_ports = map (\<lambda>t. LocalPort t @ '':'' @ RemotePort t) tt,
                      pf_active = False\<rparr>),
                 next_ref := Suc (next_ref st),
                 goroutines := goroutines st @ [RunForward (next_ref st) fwd],
                 log := log st1 @ [(thread st, Call_Start (next_ref st) path co),
                                   (thread st, Go (RunForward (next_ref st) fwd))]\<rparr>"
    by blast
  note fr = tryListenPorts_frame [OF run]
  have a: "forwarders (startFwdCB e path co tt st) = forwarders st"
    using fr by (simp add: res)
  have b: "goroutines (startFwdCB e path co tt st) = goroutines st @ [RunForward (next_ref st) fwd]"
    by (simp add: res)
  have c: "\<forall>x\<in>set (log (startFwdCB e path co tt st)).
            snd x = Registry_Add (next_ref st) \<longrightarrow> x \<in> set (log st)"
    using p by (auto simp: res l is_probe_def)
  have d: "\<exists>rest. log (run_task e (RunForward (next_ref st) fwd) (startFwdCB e path co tt st)) =
                   log (startFwdCB e path co tt st) @
                   (Background, Registry_Add (next_ref st)) # rest"
    by (simp add: runForward_log)
  have key: "pf_FQN (startFwdCB e path co tt st) (next_ref st) = PortForwardID path co"
    by (simp add: res pf_FQN_def)
  have "forwarders (run_task e (RunForward (next_ref st) fwd) (startFwdCB e path co tt st)) =
           forwarders st @ [(PortForwardID path co, next_ref st)]"
    using assms(2) a key
    by (simp add: runForward_forwarders pf_FQN_def ForwarderFor_def)
  with a b c d show ?thesis by blast
qed

theorem runForward_registers_session_witness:
  "fst (tryListenPorts env0 tunnels0 app0) = None \<and>
   ForwarderFor app0 (PortForwardID ''ns/web-0'' ''app'') = None \<and>
   pf_Start env0 ''ns/web-0'' ''app'' tunnels0 = Inr 7 \<and>
   forwarders (startFwdCB env0 ''ns/web-0'' ''app'' tunnels0 app0) = [] \<and>
   goroutines (startFwdCB env0 ''ns/web-0'' ''app'' tunnels0 app0) = [RunForward 0 7] \<and>
   forwarders (run_task env0 (RunForward 0 7) (startFwdCB env0 ''ns/web-0'' ''app'' tunnels0 app0)) =
     [(''ns/web-0|app'', 0)]"
proof -
  have h1: "fst (tryListenPorts env0 tunnels0 app0) = None"
    by (simp add: tunnels0_def tryListenPort_def env0_def Let_def)
  have h2: "ForwarderFor app0 (PortForwardID ''ns/web-0'' ''app'') = None"
    by (simp add: ForwarderFor_def app0_def)
  have h3: "pf_Start env0 ''ns/web-0'' ''app'' tunnels0 = Inr 7"
    by (simp add: env0_def)
  from runForward_registers_session [OF h1 h2 h3] h1 h2 h3 show ?thesis
    by (simp add: app0_def PortForwardID_def)
qed

text \<open>
  On the scenario, the registry holds no entry for the key at the moment the goroutine is
  launched, and the goroutine is the one that calls \<open>AddForwarder\<close>.
\<close>

theorem startFwdCB_does_not_register:
  "ForwarderFor started ''ns/web-0|app'' = None \<and>
   goroutines started = [RunForward 0 7] \<and>
   (Background, Registry_Add 0) \<in> set (log (run_task env0 (RunForward 0 7) started))"
  by (simp add: runForward_log started_fields ForwarderFor_def)

subsection \<open>The active flag\<close>

text \<open>
  C5, as the code has it.  A session is constructed with the active flag false and neither
  \<open>Start\<close> nor the launch changes the flag.  \<open>runForward\<close> queues the activation notice
  for the UI loop, then sets the flag true on its own, and only then calls the blocking
  \<open>ForwardPorts\<close>; the flag is true when \<open>runForward\<close> returns, whatever
  \<open>ForwardPorts\<close> answered.  The queued notice flashes the activation message and dismisses
  the dialog and leaves the flag alone (it panics on a session without ports).
\<close>

theorem runForward_active_flag:
  "pf_active (heap (snd (NewPortForwarder st)) (fst (NewPortForwarder st))) = False \<and>
   pf_active (heap (snd (Start e pf path co tt s)) pf) = pf_active (heap s pf) \<and>
   heap (go t s) = heap s \<and>
   log (runForward e pf f s) =
     log s @ [(thread s, Registry_Add pf), (thread s, Queue (Activated pf)),
              (thread s, Set_Active pf True), (thread s, Call_ForwardPorts f),
              (thread s, case ForwardPorts e f of Some err \<Rightarrow> Flash (Err err)
                                                 | None \<Rightarrow> Queue (Retire pf))] \<and>
   pf_active (heap (runForward e pf f s) pf) = True \<and>
   (case run_closure (Activated pf) s of
      Inl p \<Rightarrow> pf_ports (heap s pf) = []
    | Inr s' \<Rightarrow>
        heap s' = heap s \<and>
        flash s' = flash s @ [Info (''PortForward activated '' @ pf_path (heap s pf) @ '':'' @
                                     hd (pf_ports (heap s pf)))] \<and>
        pages s' = filter (\<lambda>d. \<not> is_PortForwardDialog d) (pages s))"
proof -
  have "pf_active (heap (snd (NewPortForwarder st)) (fst (NewPortForwarder st))) = False"
    by (simp add: NewPortForwarder_def)
  moreover have "pf_active (heap (snd (Start e pf path co tt s)) pf) = pf_active (heap s pf)"
    by (simp add: Start_def Let_def split: sum.split)
  moreover have "heap (go t s) = heap s"
    by (simp add: go_def)
  moreover have "pf_active (heap (runForward e pf f s) pf) = True"
    by (simp add: runForward_heap)
  moreover have "case run_closure (Activated pf) s of
      Inl p \<Rightarrow> pf_ports (heap s pf) = []
    | Inr s' \<Rightarrow>
        heap s' = heap s \<and>
        flash s' = flash s @ [Info (''PortForward activated '' @ pf_path (heap s pf) @ '':'' @
                                     hd (pf_ports (heap s pf)))] \<and>
        pages s' = filter (\<lambda>d. \<not> is_PortForwardDialog d) (pages s)"
    by (simp add: prims split: list.split)
  ultimately show ?thesis
    using runForward_log [of e pf f s] by blast
qed

text \<open>
  On the scenario where the transport fails, the flag is set true before \<open>ForwardPorts\<close>
  is called and stays true although forwarding failed.
\<close>

theorem runForward_active_before_forwarding:
  "ForwardPorts env_transport_error 7 = Some (Error ''lost connection'') \<and>
   take 2 (drop 6 (log (run_task env_transport_error (RunForward 0 7) started))) =
     [(Background, Set_Active 0 True), (Background, Call_ForwardPorts 7)] \<and>
   pf_active (heap (run_task env_transport_error (RunForward 0 7) started) 0) = True"
  by (simp add: runForward_log runForward_heap started_fields scen)

subsection \<open>Which thread mutates what\<close>

lemma run_closure_ui:
  assumes "run_closure c st = Inr st'" and "thread st = UIThread"
  shows "thread st' = UIThread \<and>
         (\<exists>evs. log st' = log st @ evs \<and> (\<forall>x\<in>set evs. fst x = UIThread \<and> is_ui_update (snd x)))"
  using assms
  by (cases c) (auto simp: prims is_ui_update_def split: list.splits)

lemma run_closures_ui:
  assumes "run_closures cs st = Inr st'" and "thread st = UIThread"
  shows "\<exists>evs. log st' = log st @ evs \<and> (\<forall>x\<in>set evs. fst x = UIThread \<and> is_ui_update (snd x))"
  using assms
proof (induction cs arbitrary: st)
  case Nil
  then show ?case by simp
next
  case (Cons c cs)
  from Cons.prems(1) obtain st1 where c: "run_closure c st = Inr st1"
    and rest: "run_closures cs st1 = Inr st'"
    by (auto split: sum.splits)
  from run_closure_ui [OF c Cons.prems(2)] obtain evs1 where
    t1: "thread st1 = UIThread" and l1: "log st1 = log st @ evs1"
    and a1: "\<forall>x\<in>set evs1. fst x = UIThread \<and> is_ui_update (snd x)"
    by blast
  from Cons.IH [OF rest t1] obtain evs2 where
    l2: "log st' = log st1 @ evs2" and a2: "\<forall>x\<in>set evs2. fst x = UIThread \<and> is_ui_update (snd x)"
    by blast
  from l1 l2 have "log st' = log st @ (evs1 @ evs2)" by simp
  moreover from a1 a2 have "\<forall>x\<in>set (evs1 @ evs2). fst x = UIThread \<and> is_ui_update (snd x)"
    by auto
  ultimately show ?case by blast
qed

text \<open>
  C9, as the code has it.  The goroutine of \<open>runForward\<close> performs five actions on the
  background thread: it registers the session, queues the activation closure, sets the
  active flag true, calls \<open>ForwardPorts\<close> and then either flashes the transport error or
  queues the cleanup closure.  The registration, the flag and the error flash are thus
  direct mutations.  What the UI loop runs from the queue is logged on the UI thread and is
  only an info flash, a dismissal, a registry removal or a clearing of the flag.
\<close>

theorem runForward_direct_and_queued:
  "log (run_task e (RunForward pf f) st) =
     log st @ map (Pair Background)
       [Registry_Add pf, Queue (Activated pf), Set_Active pf True, Call_ForwardPorts f,
        (case ForwardPorts e f of Some err \<Rightarrow> Flash (Err err) | None \<Rightarrow> Queue (Retire pf))] \<and>
   (case ui_loop st of
      Inl p \<Rightarrow> True
    | Inr st' \<Rightarrow>
        \<exists>evs. log st' = log st @ evs \<and> (\<forall>x\<in>set evs. fst x = UIThread \<and> is_ui_update (snd x)))"
proof -
  have "log (run_task e (RunForward pf f) st) =
     log st @ map (Pair Background)
       [Registry_Add pf, Queue (Activated pf), Set_Active pf True, Call_ForwardPorts f,
        (case ForwardPorts e f of Some err \<Rightarrow> Flash (Err err) | None \<Rightarrow> Queue (Retire pf))]"
    by (simp add: runForward_log)
  moreover have "case ui_loop st of
      Inl p \<Rightarrow> True
    | Inr st' \<Rightarrow>
        \<exists>evs. log st' = log st @ evs \<and> (\<forall>x\<in>set evs. fst x = UIThread \<and> is_ui_update (snd x))"
  proof (cases "ui_loop st")
    case (Inl p)
    then show ?thesis by simp
  next
    case (Inr st')
    then have "run_closures (updates st) (st\<lparr>updates := [], thread := UIThread\<rparr>) = Inr st'"
      by (simp add: ui_loop_def)
    from run_closures_ui [OF this] Inr show ?thesis by simp
  qed
  ultimately show ?thesis by blast
qed

theorem runForward_direct_and_queued_witness:
  "log (run_task env0 (RunForward 0 7) started) =
     log started @ map (Pair Background)
       [Registry_Add 0, Queue (Activated 0), Set_Active 0 True, Call_ForwardPorts 7,
        Queue (Retire 0)] \<and>
   map_sum id (\<lambda>s. drop 9 (log s)) (ui_loop (run_task env0 (RunForward 0 7) started)) =
     Inr (map (Pair UIThread)
            [Flash (Info ''PortForward activated ns/web-0:9090:8080''), Dismiss,
             Registry_Delete ''ns/web-0|app'', Set_Active 0 False])"
  using runForward_direct_and_queued [of env0 0 7 started]
  by (simp add: ui_loop_def runForward_def started_fields prims scen Let_def)

text \<open>
  On the scenario where the transport fails, the registration, the setting of the flag and
  the error flash all happen on the background thread.
\<close>

theorem runForward_mutates_directly:
  "(Background, Registry_Add 0) \<in> set (log (run_task env_transport_error (RunForward 0 7) started)) \<and>
   (Background, Set_Active 0 True) \<in> set (log (run_task env_transport_error (RunForward 0 7) started)) \<and>
   (Background, Flash (Err (Error ''lost connection'')))
     \<in> set (log (run_task env_transport_error (RunForward 0 7) started))"
  by (simp add: runForward_log scen)

subsection \<open>The candidates of the selection dialog\<close>

lemma update_fresh:
  "k \<notin> fst ` set ps \<Longrightarrow> AList.update k v ps = ps @ [(k, v)]"
  by (induction ps) auto

lemma foldl_update_distinct:
  "distinct (map fst ps @ map co_Name cs) \<Longrightarrow>
   foldl (\<lambda>pp co. AList.update (co_Name co) (co_Ports co) pp) ps cs =
     ps @ map (\<lambda>c. (co_Name c, co_Ports c)) cs"
proof (induction cs arbitrary: ps)
  case Nil
  then show ?case by simp
next
  case (Cons c cs)
  from Cons.prems have fresh: "co_Name c \<notin> fst ` set ps" by auto
  from Cons.prems have "distinct (map fst (ps @ [(co_Name c, co_Ports c)]) @ map co_Name cs)"
    by auto
  from Cons.IH [OF this] fresh show ?case
    by (simp add: update_fresh)
qed

lemma mset_concat_map_cong:
  assumes "mset xs = mset ys"
  shows "mset (concat (map f xs)) = mset (concat (map f ys))"
proof -
  have "mset (concat (map f zs)) = sum_mset (image_mset (\<lambda>z. mset (f z)) (mset zs))" for zs
    by (induction zs) simp_all
  with assms show ?thesis by simp
qed

lemma fetchPodPorts_pod:
  assumes "factory_Get e path = Inr (Unstructured (Inr pod))"
    and "distinct (map co_Name (Spec_Containers pod))"
  shows "fetchPodPorts e path st =
           Inr (Inr (map (\<lambda>c. (co_Name c, co_Ports c)) (Spec_Containers pod)),
                emit (Call_Get path) st)"
  using assms foldl_update_distinct [of "[]" "Spec_Containers pod"]
  by (simp add: fetchPodPorts_def Let_def)

text \<open>
  C6.  Let the cluster hand back a pod whose containers have distinct names, and let the
  \<open>range\<close> loop visit every entry of the map once, in whatever order.  Then
  \<open>fetchPodPorts\<close> stores every declared port of every container, TCP or not, and
  \<open>showFwdDialog\<close> opens the selection dialog with exactly the declared TCP ports, each
  written \<open>container/portName:containerPort\<close>: as multisets, the candidates and the
  formatted TCP entries of the pod are equal.
\<close>

theorem showFwdDialog_candidates:
  assumes "factory_Get e path = Inr (Unstructured (Inr pod))"
    and "distinct (map co_Name (Spec_Containers pod))"
    and "\<And>mm. mset (map_range e mm) = mset mm"
  shows "fetchPodPorts e path st =
           Inr (Inr (map (\<lambda>c. (co_Name c, co_Ports c)) (Spec_Containers pod)),
                emit (Call_Get path) st) \<and>
         (\<exists>ports st'.
            showFwdDialog e path cb st = Inr (None, st') \<and>
            pages st' = pages st @ [PortForwardDialog path ports cb] \<and>
            mset ports =
              mset (concat (map (\<lambda>c. map (\<lambda>p. co_Name c @ ''/'' @ Name p @ '':'' @
                                                 Itoa (sint (ContainerPort p)))
                                        (filter (\<lambda>p. Protocol p = ''TCP'') (co_Ports c)))
                             (Spec_Containers pod))))"
proof -
  let ?mm = "map (\<lambda>c. (co_Name c, co_Ports c)) (Spec_Containers pod)"
  let ?ports = "concat (map (\<lambda>(co, pp). candidates co pp) (map_range e ?mm))"
  note fetch = fetchPodPorts_pod [OF assms(1,2), of st]
  have show_eq: "showFwdDialog e path cb st =
      Inr (None, ShowPortForwards path ?ports cb (emit (Call_Get path) st))"
    by (simp add: showFwdDialog_def fetch)
  have "mset ?ports = mset (concat (map (\<lambda>(co, pp). candidates co pp) ?mm))"
    by (rule mset_concat_map_cong) (rule assms(3))
  also have "concat (map (\<lambda>(co, pp). candidates co pp) ?mm) =
      concat (map (\<lambda>c. map (\<lambda>p. co_Name c @ ''/'' @ Name p @ '':'' @
                                   Itoa (sint (ContainerPort p)))
                          (filter (\<lambda>p. Protocol p = ''TCP'') (co_Ports c)))
               (Spec_Containers pod))"
    by (simp add: candidates_def FQN_def ProtocolTCP_def comp_def)
  finally have ms: "mset ?ports =
      mset (concat (map (\<lambda>c. map (\<lambda>p. co_Name c @ ''/'' @ Name p @ '':'' @
                                         Itoa (sint (ContainerPort p)))
                                (filter (\<lambda>p. Protocol p = ''TCP'') (co_Ports c)))
                     (Spec_Containers pod)))" .
  have "pages (ShowPortForwards path ?ports cb (emit (Call_Get path) st)) =
          pages st @ [PortForwardDialog path ?ports cb]"
    by (simp add: ShowPortForwards_def)
  with show_eq ms fetch show ?thesis by blast
qed

theorem showFwdDialog_candidates_witness:
  "factory_Get env_two_containers ''ns/web-0'' = Inr (Unstructured (Inr web2)) \<and>
   distinct (map co_Name (Spec_Containers web2)) \<and>
   (\<forall>mm. mset (map_range env_two_containers mm) = mset mm) \<and>
   map_sum id (\<lambda>(r, st'). (r, pages st'))
     (showFwdDialog env_two_containers ''ns/web-0'' StartFwdCB app0) =
     Inr (None, [PortForwardDialog ''ns/web-0'' [''sidecar/metrics:9102'', ''app/http:8080'']
                   StartFwdCB])"
proof -
  have h1: "factory_Get env_two_containers ''ns/web-0'' = Inr (Unstructured (Inr web2))"
    by (simp add: env_two_containers_def env0_def)
  have h2: "distinct (map co_Name (Spec_Containers web2))"
    by (simp add: web2_def)
  have h3: "mset (map_range env_two_containers mm) = mset mm" for mm
    by (simp add: env_two_containers_def env0_def)
  have ev: "map_sum id (\<lambda>(r, st'). (r, pages st'))
     (showFwdDialog env_two_containers ''ns/web-0'' StartFwdCB app0) =
     Inr (None, [PortForwardDialog ''ns/web-0'' [''sidecar/metrics:9102'', ''app/http:8080'']
                   StartFwdCB])"
    by (simp add: showFwdDialog_def fetchPodPorts_def candidates_def FQN_def Itoa_def
          decimal.simps digit_def ProtocolTCP_def env_two_containers_def web2_def prims scen Let_def)
  from showFwdDialog_candidates [OF h1 h2 h3, of app0 StartFwdCB] h1 h2 h3 ev
  show ?thesis by blast
qed

subsection \<open>The dispatch of the trigger\<close>

lemma fetchPodName_frame:
  assumes "fetchPodName e path st = (r, st')"
  shows "heap st' = heap st" "next_ref st' = next_ref st" "forwarders st' = forwarders st"
    "flash st' = flash st" "pages st' = pages st" "updates st' = updates st"
    "goroutines st' = goroutines st" "thread st' = thread st"
    "\<exists>evs. log st' = log st @ (thread st, Call_AccessorFor (GVR e)) # evs \<and>
           (\<forall>x\<in>set evs. snd x = Call_Pod path)"
  using assms
  by (auto simp: fetchPodName_def Let_def split: sum.splits accessor.splits option.splits)

lemma foldl_append_concat:
  "foldl (\<lambda>acc x. acc @ f x) a xs = a @ concat (map f xs)"
  by (induction xs arbitrary: a) simp_all

lemma showFwdDialog_frame:
  assumes "showFwdDialog e pod cb st = Inr (r, st')"
  shows "(thread st, Call_Get pod) \<in> set (log st')"
    and "filter (\<lambda>d. \<not> is_PortForwardDialog d) (pages st') =
         filter (\<lambda>d. \<not> is_PortForwardDialog d) (pages st)"
    and "forwarders st' = forwarders st" and "thread st' = thread st"
  using assms
  by (auto simp: showFwdDialog_def fetchPodPorts_def ShowPortForwards_def is_PortForwardDialog_def
        Let_def split: sum.splits runtime_object.splits prod.splits)

text \<open>
  C7, as the code has it.  Let a row be selected and the accessor of its kind be obtained;
  the pod is the one the controller resolves the selected row to.  (1) If the accessor is
  not a controller, \<open>portFwdCmd\<close> flashes "expecting a controller resource" for the kind
  and does nothing else, whatever the registry holds.  (2) If the controller fails to
  resolve the row, its error is flashed and nothing else happens: no dialog, no query of
  ports.  (3) If the row resolves to a pod for which the registry holds at least one
  entry, the confirmation dialog is shown, whose message lists the container and the ports
  of each entry; nothing is flashed and the ports of the pod are not queried.  (4) If the
  row resolves to a pod for which the registry holds no entry, \<open>showFwdDialog\<close> is run
  for that pod: its ports are queried, no confirmation dialog is added, and an error of
  \<open>showFwdDialog\<close> is flashed.
\<close>

theorem portFwdCmd_dispatch:
  assumes "GetSelectedItem e \<noteq> []"
    and "AccessorFor e (GVR e) = Inr (Accessor acc)"
  shows "(acc = None \<longrightarrow>
            portFwdCmd e evt st =
              Inr (None,
                   Flash_Err (Error (''expecting a controller resource for '' @ Quote e (GVR e)))
                     (emit (Call_AccessorFor (GVR e)) st))) \<and>
         (acc = Some ctrl_Pod \<longrightarrow> ctrl_Pod (GetSelectedItem e) = Inl err \<longrightarrow>
            portFwdCmd e evt st =
              Inr (None,
                   Flash_Err err
                     (emit (Call_Pod (GetSelectedItem e)) (emit (Call_AccessorFor (GVR e)) st)))) \<and>
         (acc = Some ctrl_Pod \<longrightarrow> ctrl_Pod (GetSelectedItem e) = Inr pod \<longrightarrow>
          GetForwarders st pod \<noteq> [] \<longrightarrow>
            portFwdCmd e evt st =
              Inr (None,
                   showModal (''Delete PortForward '' @ pod @ ''?%!(EXTRA string='' @
                                concat (map (binding st) (GetForwarders st pod)) @ '')'')
                     (DeleteFwdOK pod)
                     (emit (Call_Pod (GetSelectedItem e)) (emit (Call_AccessorFor (GVR e)) st)))) \<and>
         (acc = Some ctrl_Pod \<longrightarrow> ctrl_Pod (GetSelectedItem e) = Inr pod \<longrightarrow>
          GetForwarders st pod = [] \<longrightarrow>
            portFwdCmd e evt st =
              (case showFwdDialog e pod StartFwdCB
                      (emit (Call_Pod (GetSelectedItem e)) (emit (Call_AccessorFor (GVR e)) st)) of
                 Inl p \<Rightarrow> Inl p
               | Inr (r, st2) \<Rightarrow>
                   Inr (None, case r of Some err2 \<Rightarrow> Flash_Err err2 st2 | None \<Rightarrow> st2)) \<and>
            (case portFwdCmd e evt st of
               Inl p \<Rightarrow> True
             | Inr (k, st') \<Rightarrow>
                 k = None \<and> (thread st, Call_Get pod) \<in> set (log st') \<and>
                 filter (\<lambda>d. \<not> is_PortForwardDialog d) (pages st') =
                   filter (\<lambda>d. \<not> is_PortForwardDialog d) (pages st)))"
proof (intro conjI impI)
  assume "acc = None"
  with assms show "portFwdCmd e evt st =
              Inr (None,
                   Flash_Err (Error (''expecting a controller resource for '' @ Quote e (GVR e)))
                     (emit (Call_AccessorFor (GVR e)) st))"
    by (simp add: portFwdCmd_def fetchPodName_def Let_def)
next
  assume "acc = Some ctrl_Pod" and "ctrl_Pod (GetSelectedItem e) = Inl err"
  with assms show "portFwdCmd e evt st =
              Inr (None,
                   Flash_Err err
                     (emit (Call_Pod (GetSelectedItem e)) (emit (Call_AccessorFor (GVR e)) st)))"
    by (simp add: portFwdCmd_def fetchPodName_def Let_def)
next
  let ?st1 = "emit (Call_Pod (GetSelectedItem e)) (emit (Call_AccessorFor (GVR e)) st)"
  assume a: "acc = Some ctrl_Pod" and r: "ctrl_Pod (GetSelectedItem e) = Inr pod"
    and reg: "GetForwarders st pod \<noteq> []"
  from assms a r have f: "fetchPodName e (GetSelectedItem e) st = (Inr pod, ?st1)"
    by (simp add: fetchPodName_def Let_def)
  have g: "GetForwarders ?st1 pod = GetForwarders st pod"
    by (simp add: GetForwarders_def)
  have b: "binding ?st1 = binding st"
    by (simp add: binding_def fun_eq_iff)
  from assms(1) f g reg b
  show "portFwdCmd e evt st =
              Inr (None,
                   showModal (''Delete PortForward '' @ pod @ ''?%!(EXTRA string='' @
                                concat (map (binding st) (GetForwarders st pod)) @ '')'')
                     (DeleteFwdOK pod) ?st1)"
    by (simp add: portFwdCmd_def showDeleteFwdDialog_def foldl_append_concat Let_def)
next
  let ?st1 = "emit (Call_Pod (GetSelectedItem e)) (emit (Call_AccessorFor (GVR e)) st)"
  assume a: "acc = Some ctrl_Pod" and r: "ctrl_Pod (GetSelectedItem e) = Inr pod"
    and reg: "GetForwarders st pod = []"
  from assms a r have f: "fetchPodName e (GetSelectedItem e) st = (Inr pod, ?st1)"
    by (simp add: fetchPodName_def Let_def)
  have g: "GetForwarders ?st1 pod = []"
    using reg by (simp add: GetForwarders_def)
  from assms(1) f g
  have run: "portFwdCmd e evt st =
      (case showFwdDialog e pod StartFwdCB ?st1 of
         Inl p \<Rightarrow> Inl p
       | Inr (r, st2) \<Rightarrow>
           Inr (None, case r of Some err2 \<Rightarrow> Flash_Err err2 st2 | None \<Rightarrow> st2))"
    by (simp add: portFwdCmd_def Let_def split: sum.split option.split prod.split)
  have obs: "case portFwdCmd e evt st of
               Inl p \<Rightarrow> True
             | Inr (k, st') \<Rightarrow>
                 k = None \<and> (thread st, Call_Get pod) \<in> set (log st') \<and>
                 filter (\<lambda>d. \<not> is_PortForwardDialog d) (pages st') =
                   filter (\<lambda>d. \<not> is_PortForwardDialog d) (pages st)"
  proof (cases "showFwdDialog e pod StartFwdCB ?st1")
    case (Inl p)
    with run show ?thesis by simp
  next
    case (Inr q)
    obtain r2 st2 where q: "q = (r2, st2)" by (cases q)
    note sf = showFwdDialog_frame [OF Inr [unfolded q]]
    from sf have c: "(thread st, Call_Get pod) \<in> set (log st2)"
      and d: "filter (\<lambda>d. \<not> is_PortForwardDialog d) (pages st2) =
              filter (\<lambda>d. \<not> is_PortForwardDialog d) (pages st)"
      by simp_all
    show ?thesis
    proof (cases r2)
      case None
      with run Inr q c d show ?thesis by simp
    next
      case (Some err2)
      with run Inr q c d show ?thesis by simp
    qed
  qed
  from run
  show "portFwdCmd e evt st =
              (case showFwdDialog e pod StartFwdCB ?st1 of
                 Inl p \<Rightarrow> Inl p
               | Inr (r, st2) \<Rightarrow>
                   Inr (None, case r of Some err2 \<Rightarrow> Flash_Err err2 st2 | None \<Rightarrow> st2))" .
  from obs
  show "case portFwdCmd e evt st of
               Inl p \<Rightarrow> True
             | Inr (k, st') \<Rightarrow>
                 k = None \<and> (thread st, Call_Get pod) \<in> set (log st') \<and>
                 filter (\<lambda>d. \<not> is_PortForwardDialog d) (pages st') =
                   filter (\<lambda>d. \<not> is_PortForwardDialog d) (pages st)" .
qed

theorem portFwdCmd_dispatch_witness:
  "GetSelectedItem env_not_controller \<noteq> [] \<and>
   AccessorFor env_not_controller (GVR env_not_controller) = Inr (Accessor None) \<and>
   map_sum id (\<lambda>(k, st'). (k, pages st', flash st')) (portFwdCmd env_not_controller (0::nat) app0) =
     Inr (None, [],
          [Err (Error (''expecting a controller resource for '' @ [CHR 0x22] @ ''v1/nodes'' @
                         [CHR 0x22]))]) \<and>
   GetSelectedItem env_no_pods \<noteq> [] \<and>
   AccessorFor env_no_pods (GVR env_no_pods) = Inr (Accessor (Some no_Pod)) \<and>
   no_Pod (GetSelectedItem env_no_pods) = Inl (Error ''no pods found for ns/web'') \<and>
   map_sum id (\<lambda>(k, st'). (k, pages st', flash st')) (portFwdCmd env_no_pods (0::nat) app0) =
     Inr (None, [], [Err (Error ''no pods found for ns/web'')]) \<and>
   GetSelectedItem env_deploy \<noteq> [] \<and>
   AccessorFor env_deploy (GVR env_deploy) = Inr (Accessor (Some deploy_Pod)) \<and>
   deploy_Pod (GetSelectedItem env_deploy) = Inr ''ns/web-0'' \<and>
   GetForwarders app1 ''ns/web-0'' \<noteq> [] \<and>
   map_sum id (\<lambda>(k, st'). (k, pages st', flash st')) (portFwdCmd env_deploy (0::nat) app1) =
     Inr (None,
          [Modal (''Delete PortForward ns/web-0?%!(EXTRA string='' @ [CHR 0x0A, CHR 0x0D] @
                    ''app[9090:8080])'') (DeleteFwdOK ''ns/web-0'')], []) \<and>
   GetForwarders app0 ''ns/web-0'' = [] \<and>
   map_sum id (\<lambda>(k, st'). (k, pages st', flash st')) (portFwdCmd env_deploy (0::nat) app0) =
     Inr (None, [PortForwardDialog ''ns/web-0'' [''app/http:8080''] StartFwdCB], [])"
proof -
  have s1: "GetSelectedItem env_not_controller \<noteq> []"
    and s2: "GetSelectedItem env_no_pods \<noteq> []"
    and s3: "GetSelectedItem env_deploy \<noteq> []"
    by (simp_all add: env_not_controller_def env_no_pods_def env_deploy_def env0_def)
  have a1: "AccessorFor env_not_controller (GVR env_not_controller) = Inr (Accessor None)"
    and a2: "AccessorFor env_no_pods (GVR env_no_pods) = Inr (Accessor (Some no_Pod))"
    and a3: "AccessorFor env_deploy (GVR env_deploy) = Inr (Accessor (Some deploy_Pod))"
    by (simp_all add: env_not_controller_def env_no_pods_def env_deploy_def env0_def)
  have p2: "no_Pod (GetSelectedItem env_no_pods) = Inl (Error ''no pods found for ns/web'')"
    and p3: "deploy_Pod (GetSelectedItem env_deploy) = Inr ''ns/web-0''"
    by (simp_all add: no_Pod_def deploy_Pod_def env_no_pods_def env_deploy_def env0_def)
  have g1: "GetForwarders app1 ''ns/web-0'' \<noteq> []" and g0: "GetForwarders app0 ''ns/web-0'' = []"
    by (simp_all add: GetForwarders_def app1_def app0_def)
  have e1: "map_sum id (\<lambda>(k, st'). (k, pages st', flash st'))
       (portFwdCmd env_not_controller (0::nat) app0) =
     Inr (None, [],
          [Err (Error (''expecting a controller resource for '' @ [CHR 0x22] @ ''v1/nodes'' @
                         [CHR 0x22]))])"
    using portFwdCmd_dispatch [OF s1 a1, where evt = "0::nat" and st = app0]
    by (simp add: Quote_def quote_char_def env_not_controller_def env0_def app0_def Let_def)
  have e2: "map_sum id (\<lambda>(k, st'). (k, pages st', flash st')) (portFwdCmd env_no_pods (0::nat) app0) =
     Inr (None, [], [Err (Error ''no pods found for ns/web'')])"
    using portFwdCmd_dispatch [OF s2 a2, where ctrl_Pod = no_Pod and evt = "0::nat" and st = app0
            and err = "Error ''no pods found for ns/web''"] p2
    by (simp add: app0_def)
  have e3: "map_sum id (\<lambda>(k, st'). (k, pages st', flash st')) (portFwdCmd env_deploy (0::nat) app1) =
     Inr (None,
          [Modal (''Delete PortForward ns/web-0?%!(EXTRA string='' @ [CHR 0x0A, CHR 0x0D] @
                    ''app[9090:8080])'') (DeleteFwdOK ''ns/web-0'')], [])"
    using portFwdCmd_dispatch [OF s3 a3, where ctrl_Pod = deploy_Pod and evt = "0::nat" and st = app1
            and pod = "''ns/web-0''"] p3 g1
    by (simp add: showModal_def binding_def fmt_strings_def GetForwarders_def app1_def app0_def)
  have e4: "map_sum id (\<lambda>(k, st'). (k, pages st', flash st')) (portFwdCmd env_deploy (0::nat) app0) =
     Inr (None, [PortForwardDialog ''ns/web-0'' [''app/http:8080''] StartFwdCB], [])"
    using portFwdCmd_dispatch [OF s3 a3, where ctrl_Pod = deploy_Pod and evt = "0::nat" and st = app0
            and pod = "''ns/web-0''"] p3 g0
    by (simp add: showFwdDialog_def fetchPodPorts_def candidates_def FQN_def Itoa_def
          decimal.simps digit_def ProtocolTCP_def env_deploy_def prims scen Let_def)
  from s1 s2 s3 a1 a2 a3 p2 p3 g1 g0 e1 e2 e3 e4 show ?thesis by blast
qed

text \<open>
  On the scenario of a deployment without pods, with an empty registry, the trigger ends
  in the controller's error: no confirmation dialog, no "expecting a controller resource",
  and no selection dialog or query of ports either.
\<close>

theorem portFwdCmd_resolution_error:
  "GetSelectedItem env_no_pods = ''ns/web'' \<and> forwarders app0 = [] \<and>
   AccessorFor env_no_pods (GVR env_no_pods) = Inr (Accessor (Some no_Pod)) \<and>
   map_sum id (\<lambda>(k, st'). (k, pages st', flash st', log st'))
     (portFwdCmd env_no_pods (0::nat) app0) =
     Inr (None, [], [Err (Error ''no pods found for ns/web'')],
          [(UIThread, Call_AccessorFor ''apps/v1/deployments''),
           (UIThread, Call_Pod ''ns/web''),
           (UIThread, Flash (Err (Error ''no pods found for ns/web'')))])"
  by (simp add: portFwdCmd_def fetchPodName_def no_Pod_def env_no_pods_def env_deploy_def
        prims scen Let_def)

end
